theory Spec2Isabelle
  imports Main "HOL-Library.Char_ord" "HOL-Library.List_Lexorder" "HOL-Library.Product_Lexorder"
    "HOL-Library.Sublist" "HOL-Library.AList"
begin

section \<open>The NESDev wiki client: data model\<close>

text \<open>
  The two entry points \<^verbatim>\<open>tool/nesdev.py\<close> and \<^verbatim>\<open>tool/nesdev_pages.py\<close> share the cache
  layer (\<^verbatim>\<open>cache_key\<close>, \<^verbatim>\<open>cached_request\<close>), the metadata formatter and \<^verbatim>\<open>fetch_wikitext\<close>
  verbatim; they are embedded once.

  A Python \<^verbatim>\<open>str\<close> is a sequence of code points, each below \<^verbatim>\<open>0x110000\<close>; the surrogate
  code points \<^verbatim>\<open>0xD800\<close> to \<^verbatim>\<open>0xDFFF\<close> may occur in it on their own. It is a list of
  natural numbers here. The literals of the source are ASCII and are written \<open>U ''...''\<close>.
  Text that is ASCII by construction (a JSON serialization, a hexadecimal digest, the
  decimal digits of a number) is a \<open>string\<close>.
\<close>

type_synonym ustr = "nat list"

definition U :: "string \<Rightarrow> ustr" where
  "U s = map of_char s"


text \<open>
  A decoded JSON body is a value of \<open>json\<close>. A Python \<^verbatim>\<open>dict\<close> keeps insertion order and
  has no repeated key, so an object is an association list read with \<open>map_of\<close>.
  Numbers are the integers the API sends (page ids, revision ids, indices).
\<close>

datatype json =
    JNull
  | JBool bool
  | JNum int
  | JStr ustr
  | JArr "json list"
  | JObj "(ustr \<times> json) list"

type_synonym params = "(ustr \<times> ustr) list"

subsection \<open>Python strings\<close>

definition NL :: nat where
  "NL = 0x0A"

text \<open>Python's \<^verbatim>\<open>sep.join(lines)\<close>.\<close>

fun join :: "'a list \<Rightarrow> 'a list list \<Rightarrow> 'a list" where
  "join sep [] = []"
| "join sep [x] = x"
| "join sep (x # y # ys) = x @ sep @ join sep (y # ys)"

text \<open>\<^verbatim>\<open>s.rstrip("\n")\<close>: every trailing newline is removed.\<close>

definition rstrip_nl :: "ustr \<Rightarrow> ustr" where
  "rstrip_nl s = rev (dropWhile (\<lambda>c. c = NL) (rev s))"

subsection \<open>Cache keys (\<^verbatim>\<open>cache_key\<close>, identical in both files)\<close>

definition DQ :: char where
  "DQ = CHR 0x22"

definition BS :: char where
  "BS = CHR 0x5C"

definition hex_digit :: "nat \<Rightarrow> char" where
  "hex_digit n = ''0123456789abcdef'' ! n"

text \<open>The format \<^verbatim>\<open>'\\u{0:04x}'\<close> of the library's encoder, for a number below \<^verbatim>\<open>0x10000\<close>.\<close>

definition u_escape :: "nat \<Rightarrow> string" where
  "u_escape n =
     [BS, CHR ''u'', hex_digit (n div 4096 mod 16), hex_digit (n div 256 mod 16),
      hex_digit (n div 16 mod 16), hex_digit (n mod 16)]"

text \<open>
  The surrogate pair of a code point from \<^verbatim>\<open>0x10000\<close>, as the library's encoder computes
  it: \<^verbatim>\<open>n -= 0x10000\<close>, \<^verbatim>\<open>s1 = 0xd800 | ((n >> 10) & 0x3ff)\<close> and
  \<^verbatim>\<open>s2 = 0xdc00 | (n & 0x3ff)\<close>.
\<close>

definition hi_surrogate :: "nat \<Rightarrow> nat" where
  "hi_surrogate c = 0xD800 + (c - 0x10000) div 1024 mod 1024"

definition lo_surrogate :: "nat \<Rightarrow> nat" where
  "lo_surrogate c = 0xDC00 + (c - 0x10000) mod 1024"

text \<open>
  \<^verbatim>\<open>json.dumps\<close> of one character of a string (the default \<^verbatim>\<open>ensure_ascii=True\<close>, the
  function \<^verbatim>\<open>py_encode_basestring_ascii\<close> of the library): the quote and the backslash
  are escaped with a backslash; backspace, form feed, newline, carriage return and tab
  have their letter; the characters from space to tilde stand for themselves; any other
  code point below \<^verbatim>\<open>0x10000\<close> is written \<^verbatim>\<open>\uXXXX\<close>, a lone surrogate included; and a
  code point from \<^verbatim>\<open>0x10000\<close> is written as its surrogate pair.
\<close>

definition json_escape :: "nat \<Rightarrow> string" where
  "json_escape c =
     (if c = 0x22 then [BS, DQ]
      else if c = 0x5C then [BS, BS]
      else if c = 0x08 then [BS, CHR ''b'']
      else if c = 0x0C then [BS, CHR ''f'']
      else if c = 0x0A then [BS, CHR ''n'']
      else if c = 0x0D then [BS, CHR ''r'']
      else if c = 0x09 then [BS, CHR ''t'']
      else if 32 \<le> c \<and> c \<le> 126 then [char_of c]
      else if c < 0x10000 then u_escape c
      else u_escape (hi_surrogate c) @ u_escape (lo_surrogate c))"

definition dumps_str :: "ustr \<Rightarrow> string" where
  "dumps_str s = [DQ] @ concat (map json_escape s) @ [DQ]"

text \<open>One \<^verbatim>\<open>(key, value)\<close> tuple is written as a two-element array.\<close>

definition dumps_item :: "ustr \<times> ustr \<Rightarrow> string" where
  "dumps_item kv = ''['' @ dumps_str (fst kv) @ '','' @ dumps_str (snd kv) @ '']''"

text \<open>\<^verbatim>\<open>json.dumps(items, separators=(",", ":"))\<close> for a list of such tuples.\<close>

definition dumps_items :: "params \<Rightarrow> string" where
  "dumps_items items = ''['' @ join '','' (map dumps_item items) @ '']''"

text \<open>
  \<^verbatim>\<open>sorted(params.items())\<close>: tuples of strings compare lexicographically, strings by code
  point. This is the order of \<open>ustr \<times> ustr\<close>.
\<close>

definition canonical :: "params \<Rightarrow> string" where
  "canonical params = dumps_items (sort params)"

text \<open>
  \<^verbatim>\<open>hashlib.sha1(serialized.encode("utf-8")).hexdigest() + ".json"\<close>. The serialization
  is ASCII, so encoding it changes nothing. The hash function of the library is the
  parameter \<open>sha1\<close>.
\<close>

definition cache_key :: "(string \<Rightarrow> string) \<Rightarrow> params \<Rightarrow> string" where
  "cache_key sha1 params = sha1 (canonical params) @ ''.json''"


subsection \<open>The cache layer (\<^verbatim>\<open>cached_request\<close>, identical in both files)\<close>

text \<open>
  The exceptions that the code raises or lets through. \<^verbatim>\<open>HTTPError\<close> (with the status
  code of the response) and \<^verbatim>\<open>JSONDecodeError\<close> are subclasses of
  \<^verbatim>\<open>requests.RequestException\<close>; \<^verbatim>\<open>main\<close> catches \<^verbatim>\<open>RequestException\<close> and \<^verbatim>\<open>WikiError\<close>.
  The argument of \<^verbatim>\<open>WikiError\<close> is the value it was raised with.
\<close>

datatype error =
    RequestException string
  | HTTPError int
  | JSONDecodeError
  | WikiError json
  | TypeError
  | AttributeError
  | KeyError string
  | OSError string

text \<open>
  What \<^verbatim>\<open>requests.get\<close> does with a request: it raises (connection failure, timeout), or
  it returns a response object with its status code. The method \<^verbatim>\<open>json()\<close> of the response
  returns the decoded body, or raises when \<open>json_body\<close> is \<open>None\<close>.
\<close>

datatype reply =
    Raised string
  | Response (status_code: int) (json_body: "json option")

text \<open>
  \<^verbatim>\<open>response.raise_for_status()\<close> of the library: it raises \<^verbatim>\<open>HTTPError\<close> for a client
  error (\<^verbatim>\<open>400 <= status_code < 500\<close>) and for a server error
  (\<^verbatim>\<open>500 <= status_code < 600\<close>), and returns for every other status code.
\<close>

definition raise_for_status :: "int \<Rightarrow> error option" where
  "raise_for_status status =
     (if 400 \<le> status \<and> status < 600 then Some (HTTPError status) else None)"

text \<open>
  The remote API answers a request given the requests sent before it, so a reply may
  change over time.
\<close>

type_synonym network = "params list \<Rightarrow> params \<Rightarrow> reply"

text \<open>
  The state outside the process: the files of \<^verbatim>\<open>CACHE_DIR\<close> by name (a file holds the
  body written by \<^verbatim>\<open>json.dump\<close>, read back by \<^verbatim>\<open>json.load\<close>), the requests sent to the
  API so far, and the saved documents by path. \<^verbatim>\<open>ensure_cache_dir\<close> only creates the
  directory that holds the cache files.
\<close>

record world =
  cache :: "string \<rightharpoonup> json"
  net_log :: "params list"
  files :: "ustr \<rightharpoonup> ustr"

text \<open>
  Lines 89 and 90:
  \<^verbatim>\<open>if "error" in data: raise WikiError(data["error"].get("info", "Unknown MediaWiki error"))\<close>.
  The result is the exception raised, if any. On a dict \<^verbatim>\<open>in\<close> tests the keys; on a list
  it tests the elements and on a string the substrings, and subscripting either with a
  string then raises \<^verbatim>\<open>TypeError\<close>; the other values are not iterable. A value of
  \<^verbatim>\<open>"error"\<close> that is not a dict has no \<^verbatim>\<open>get\<close>.
\<close>

definition error_envelope :: "json \<Rightarrow> error option" where
  "error_envelope data =
     (case data of
        JObj kvs \<Rightarrow>
          (case map_of kvs (U ''error'') of
             None \<Rightarrow> None
           | Some (JObj ekvs) \<Rightarrow>
               Some (WikiError (case map_of ekvs (U ''info'') of
                                  None \<Rightarrow> JStr (U ''Unknown MediaWiki error'')
                                | Some info \<Rightarrow> info))
           | Some _ \<Rightarrow> Some AttributeError)
      | JArr xs \<Rightarrow> if JStr (U ''error'') \<in> set xs then Some TypeError else None
      | JStr s \<Rightarrow> if sublist (U ''error'') s then Some TypeError else None
      | _ \<Rightarrow> Some TypeError)"

definition cached_request ::
  "(string \<Rightarrow> string) \<Rightarrow> network \<Rightarrow> params \<Rightarrow> bool \<Rightarrow> world \<Rightarrow> (error + json) \<times> world" where
  "cached_request sha1 net params refresh w =
     (let key = cache_key sha1 params in
      if \<not> refresh \<and> cache w key \<noteq> None then (Inr (the (cache w key)), w)
      else
        (let w1 = w\<lparr>net_log := net_log w @ [params]\<rparr> in
         case net (net_log w) params of
           Raised msg \<Rightarrow> (Inl (RequestException msg), w1)
         | Response status body \<Rightarrow>
             (case raise_for_status status of
                Some e \<Rightarrow> (Inl e, w1)
              | None \<Rightarrow>
                  (case body of
                     None \<Rightarrow> (Inl JSONDecodeError, w1)
                   | Some data \<Rightarrow>
                       (case error_envelope data of
                          Some e \<Rightarrow> (Inl e, w1)
                        | None \<Rightarrow> (Inr data, w1\<lparr>cache := (cache w1)(key \<mapsto> data)\<rparr>))))))"

text \<open>A first run: no cache file, no request sent, no document saved.\<close>

definition empty_world :: world where
  "empty_world = \<lparr>cache = Map.empty, net_log = [], files = Map.empty\<rparr>"

subsection \<open>Python values\<close>

text \<open>Python's \<^verbatim>\<open>str\<close> of an \<^verbatim>\<open>int\<close>: decimal digits, with a minus sign when negative.\<close>

function str_nat :: "nat \<Rightarrow> string" where
  "str_nat n =
     (if n < 10 then [''0123456789'' ! n]
      else str_nat (n div 10) @ [''0123456789'' ! (n mod 10)])"
  by pat_completeness auto
termination
  by (relation "measure (\<lambda>n. n)") auto

definition str_int :: "int \<Rightarrow> string" where
  "str_int i = (if i < 0 then CHR ''-'' # str_nat (nat (- i)) else str_nat (nat i))"


text \<open>The values that \<^verbatim>\<open>if not value\<close> takes for false.\<close>

definition falsy :: "json \<Rightarrow> bool" where
  "falsy v \<longleftrightarrow> v = JNull \<or> v = JBool False \<or> v = JNum 0 \<or> v = JStr [] \<or> v = JArr [] \<or> v = JObj []"

text \<open>
  \<^verbatim>\<open>d.get(key, default)\<close>: only a dict has \<^verbatim>\<open>get\<close>; on any other value the attribute
  lookup raises \<^verbatim>\<open>AttributeError\<close>.
\<close>

definition py_get :: "json \<Rightarrow> ustr \<Rightarrow> json \<Rightarrow> error + json" where
  "py_get d key dflt =
     (case d of
        JObj kvs \<Rightarrow> Inr (case map_of kvs key of None \<Rightarrow> dflt | Some v \<Rightarrow> v)
      | _ \<Rightarrow> Inl AttributeError)"


subsection \<open>Batch size clamping (\<^verbatim>\<open>nesdev_pages.py\<close>)\<close>

definition MAX_BATCH_SIZE :: int where
  "MAX_BATCH_SIZE = 500"

text \<open>\<^verbatim>\<open>batch = max(1, batch); return min(batch, MAX_BATCH_SIZE)\<close>\<close>

definition clamp_batch_size :: "int \<Rightarrow> int" where
  "clamp_batch_size batch = min (max 1 batch) MAX_BATCH_SIZE"

text \<open>
  The batch size that \<^verbatim>\<open>command_list\<close> hands to \<^verbatim>\<open>iter_pages\<close>. The argument is the
  attribute \<^verbatim>\<open>args.batch_size\<close> after parsing: \<open>None\<close> when the namespace has no such
  attribute. \<^verbatim>\<open>main\<close> clamps it when it is present
  (\<^verbatim>\<open>if hasattr(args, "batch_size")\<close>), and \<^verbatim>\<open>command_list\<close> reads it with
  \<^verbatim>\<open>getattr(args, "batch_size", MAX_BATCH_SIZE)\<close>.
\<close>

definition main_batch_size :: "int option \<Rightarrow> int" where
  "main_batch_size attr =
     (case attr of
        None \<Rightarrow> MAX_BATCH_SIZE
      | Some b \<Rightarrow> clamp_batch_size b)"

subsection \<open>The Document Writer (\<^verbatim>\<open>format_metadata_wikitext\<close>, \<^verbatim>\<open>save_wikitext_document\<close>)\<close>

text \<open>
  The loop of \<^verbatim>\<open>format_metadata_wikitext\<close> over \<^verbatim>\<open>metadata.items()\<close>, in insertion
  order. A value is \<open>None\<close> for Python's \<^verbatim>\<open>None\<close> (the entry is skipped by
  \<^verbatim>\<open>continue\<close>). The f-string formats a value with the builtin \<^verbatim>\<open>str\<close>, which is the
  parameter \<open>str_of\<close>.
\<close>

fun metadata_lines :: "('v \<Rightarrow> ustr) \<Rightarrow> (ustr \<times> 'v option) list \<Rightarrow> ustr list" where
  "metadata_lines str_of [] = []"
| "metadata_lines str_of ((key, value) # rest) =
     (case value of
        None \<Rightarrow> metadata_lines str_of rest
      | Some v \<Rightarrow> (U '' | '' @ key @ U '' = '' @ str_of v) # metadata_lines str_of rest)"

definition format_metadata_wikitext :: "('v \<Rightarrow> ustr) \<Rightarrow> (ustr \<times> 'v option) list \<Rightarrow> ustr" where
  "format_metadata_wikitext str_of metadata =
     join [NL] ([U ''{{Page metadata''] @ metadata_lines str_of metadata @ [U ''}}''])"

text \<open>
  Lines 196 to 198 of \<^verbatim>\<open>save_wikitext_document\<close> (and the same three lines of
  \<^verbatim>\<open>command_save\<close> in \<^verbatim>\<open>nesdev_pages.py\<close>):
  \<^verbatim>\<open>front_matter = format_metadata_wikitext(metadata)\<close>,
  \<^verbatim>\<open>content = wikitext.rstrip("\n")\<close>,
  \<^verbatim>\<open>document = f"{front_matter}\n\n{content}\n"\<close>.
\<close>

definition render_document :: "('v \<Rightarrow> ustr) \<Rightarrow> (ustr \<times> 'v option) list \<Rightarrow> ustr \<Rightarrow> ustr" where
  "render_document str_of metadata wikitext =
     format_metadata_wikitext str_of metadata @ [NL, NL] @ rstrip_nl wikitext @ [NL]"

subsection \<open>Search, fetch and save (\<^verbatim>\<open>nesdev.py\<close>)\<close>
















subsection \<open>The pagination walker (\<^verbatim>\<open>iter_pages\<close> in \<^verbatim>\<open>nesdev_pages.py\<close>)\<close>

text \<open>The dict that the generator yields for one page.\<close>

record page_record =
  rec_pageid :: json
  rec_title :: json
  rec_touched :: json

text \<open>
  The source annotates \<^verbatim>\<open>continue_token: Dict[str, str] | None\<close> and
  \<^verbatim>\<open>params: Dict[str, str]\<close>, and sorts on the integers \<^verbatim>\<open>index\<close> and \<^verbatim>\<open>pageid\<close> of the
  API. What the library does outside these types is taken from it as it is: the builtin
  \<^verbatim>\<open>sorted\<close> for keys that are not all integers (given the keys with their pages), and the
  rest of the run after \<^verbatim>\<open>params.update\<close> of a true token that is not a dict of strings
  (given the descriptor built so far, the token and the world).
\<close>

record library =
  py_sorted :: "(json \<times> json) list \<Rightarrow> error + json list"
  untyped_update :: "params \<Rightarrow> json \<Rightarrow> world \<Rightarrow> page_record list \<times> error option \<times> world"

text \<open>A token of the annotated type: a dict all of whose values are strings.\<close>

fun token_items :: "(ustr \<times> json) list \<Rightarrow> params option" where
  "token_items [] = Some []"
| "token_items ((k, v) # rest) =
     (case v of
        JStr s \<Rightarrow> map_option (\<lambda>items. (k, s) # items) (token_items rest)
      | _ \<Rightarrow> None)"

definition token_params :: "json \<Rightarrow> params option" where
  "token_params token = (case token of JObj kvs \<Rightarrow> token_items kvs | _ \<Rightarrow> None)"

text \<open>
  The descriptor of one batch: the dict literal, then \<^verbatim>\<open>params["gapprefix"] = prefix\<close> when
  \<^verbatim>\<open>prefix\<close> (here \<open>pre\<close>) is neither \<^verbatim>\<open>None\<close> nor empty, then \<^verbatim>\<open>params.update(continue_token)\<close>, which
  replaces the value of a key in place and appends a new key. \<open>items\<close> are the items of the
  token, empty when there is none.
\<close>

definition batch_params :: "ustr option \<Rightarrow> int \<Rightarrow> params \<Rightarrow> params" where
  "batch_params pre gap_limit items =
     fold (\<lambda>kv ps. AList.update (fst kv) (snd kv) ps) items
       ([(U ''action'', U ''query''), (U ''format'', U ''json''), (U ''prop'', U ''info''),
         (U ''generator'', U ''allpages''), (U ''gaplimit'', U (str_int gap_limit))]
        @ (case pre of
             None \<Rightarrow> []
           | Some p \<Rightarrow> if p = [] then [] else [(U ''gapprefix'', p)]))"

text \<open>
  The sort key \<^verbatim>\<open>page.get("index", page["pageid"])\<close>: the attribute \<^verbatim>\<open>get\<close> is looked up
  first, then the default is evaluated, also when the page has an \<^verbatim>\<open>index\<close>.
\<close>

definition sort_key_of :: "json \<Rightarrow> error + json" where
  "sort_key_of page =
     (case page of
        JObj kvs \<Rightarrow>
          (case map_of kvs (U ''pageid'') of
             None \<Rightarrow> Inl (KeyError ''pageid'')
           | Some pid \<Rightarrow> Inr (case map_of kvs (U ''index'') of None \<Rightarrow> pid | Some i \<Rightarrow> i))
      | _ \<Rightarrow> Inl AttributeError)"

text \<open>\<^verbatim>\<open>sorted\<close> computes the key of every element, in order, before it compares any.\<close>

fun sort_keys :: "json list \<Rightarrow> error + json list" where
  "sort_keys [] = Inr []"
| "sort_keys (page # rest) =
     (case sort_key_of page of
        Inl e \<Rightarrow> Inl e
      | Inr k \<Rightarrow> (case sort_keys rest of Inl e \<Rightarrow> Inl e | Inr ks \<Rightarrow> Inr (k # ks)))"

definition int_key :: "json \<Rightarrow> int option" where
  "int_key k = (case k of JNum i \<Rightarrow> Some i | _ \<Rightarrow> None)"

text \<open>
  \<^verbatim>\<open>sorted(pages.values(), key=...)\<close>: integer keys are sorted in increasing order, pages
  with equal keys staying in the order of the dict (the sort is stable).
\<close>

definition sort_pages :: "library \<Rightarrow> json list \<Rightarrow> error + json list" where
  "sort_pages lib pages =
     (case sort_keys pages of
        Inl e \<Rightarrow> Inl e
      | Inr ks \<Rightarrow>
          if list_all (\<lambda>k. int_key k \<noteq> None) ks
          then Inr (map snd (sort_key fst (zip (map (\<lambda>k. the (int_key k)) ks) pages)))
          else py_sorted lib (zip ks pages))"

text \<open>The dict display of the \<^verbatim>\<open>yield\<close>: \<^verbatim>\<open>page["pageid"]\<close>, \<^verbatim>\<open>page["title"]\<close>, then the \<^verbatim>\<open>get\<close>.\<close>

definition page_record_of :: "json \<Rightarrow> error + page_record" where
  "page_record_of page =
     (case page of
        JObj kvs \<Rightarrow>
          (case map_of kvs (U ''pageid'') of
             None \<Rightarrow> Inl (KeyError ''pageid'')
           | Some pid \<Rightarrow>
               (case map_of kvs (U ''title'') of
                  None \<Rightarrow> Inl (KeyError ''title'')
                | Some t \<Rightarrow>
                    Inr \<lparr>rec_pageid = pid, rec_title = t,
                         rec_touched = (case map_of kvs (U ''touched'') of
                                          None \<Rightarrow> JStr (U ''unknown'')
                                        | Some v \<Rightarrow> v)\<rparr>))
      | _ \<Rightarrow> Inl TypeError)"

text \<open>
  The \<^verbatim>\<open>for\<close> loop over the sorted pages: a page is yielded, \<^verbatim>\<open>fetched\<close> is incremented, and
  the loop is left when \<^verbatim>\<open>fetched >= limit\<close>. The result is what was yielded, the new
  \<^verbatim>\<open>fetched\<close> and the exception that ended the loop, if any.
\<close>

fun emit :: "json list \<Rightarrow> int \<Rightarrow> int \<Rightarrow> page_record list \<times> int \<times> error option" where
  "emit [] fetched limit = ([], fetched, None)"
| "emit (page # rest) fetched limit =
     (case page_record_of page of
        Inl e \<Rightarrow> ([], fetched, Some e)
      | Inr r \<Rightarrow>
          if fetched + 1 \<ge> limit then ([r], fetched + 1, None)
          else (case emit rest (fetched + 1) limit of (rs, f, e) \<Rightarrow> (r # rs, f, e)))"

text \<open>
  One round of the \<^verbatim>\<open>while\<close> loop, entered with \<^verbatim>\<open>fetched < limit\<close>. \<open>token\<close> is
  \<^verbatim>\<open>continue_token\<close> (\<open>JNull\<close> for \<^verbatim>\<open>None\<close>). The round ends the generator (\<open>Done\<close>: by an
  exception, or by the \<^verbatim>\<open>break\<close> on a false continuation token) or hands the next round
  its state (\<open>Continue\<close>); both carry the records yielded in this round.
\<close>

datatype step =
    Done "page_record list" "error option" world
  | Continue "page_record list" int json world

definition iter_step ::
  "(string \<Rightarrow> string) \<Rightarrow> network \<Rightarrow> library \<Rightarrow> ustr option \<Rightarrow> int \<Rightarrow> int \<Rightarrow> bool
     \<Rightarrow> int \<Rightarrow> json \<Rightarrow> world \<Rightarrow> step" where
  "iter_step sha1 net lib pre limit batch_size refresh fetched token w =
     (let remaining = limit - fetched;
          gap_limit = min batch_size remaining
      in
        if \<not> falsy token \<and> token_params token = None
        then (case untyped_update lib (batch_params pre gap_limit []) token w of
                (ys, e, w1) \<Rightarrow> Done ys e w1)
        else
          (let items = (if falsy token then [] else the (token_params token));
               params = batch_params pre gap_limit items
           in
             case cached_request sha1 net params refresh w of
               (Inl e, w1) \<Rightarrow> Done [] (Some e) w1
             | (Inr data, w1) \<Rightarrow>
                 (case py_get data (U ''query'') (JObj []) of
                    Inl e \<Rightarrow> Done [] (Some e) w1
                  | Inr query \<Rightarrow>
                      (case py_get query (U ''pages'') (JObj []) of
                         Inl e \<Rightarrow> Done [] (Some e) w1
                       | Inr (JObj pages) \<Rightarrow>
                           (case sort_pages lib (map snd pages) of
                              Inl e \<Rightarrow> Done [] (Some e) w1
                            | Inr sorted_pages \<Rightarrow>
                                (case emit sorted_pages fetched limit of
                                   (ys, fetched1, Some e) \<Rightarrow> Done ys (Some e) w1
                                 | (ys, fetched1, None) \<Rightarrow>
                                     (case py_get data (U ''continue'') JNull of
                                        Inl e \<Rightarrow> Done ys (Some e) w1
                                      | Inr continue_token \<Rightarrow>
                                          if falsy continue_token then Done ys None w1
                                          else Continue ys fetched1 continue_token w1)))
                       | Inr _ \<Rightarrow> Done [] (Some AttributeError) w1))))"

text \<open>
  The \<^verbatim>\<open>while fetched < limit\<close> loop. A reply with no page and a continuation token does
  not advance \<^verbatim>\<open>fetched\<close>, so the loop need not end: \<open>fuel\<close> bounds the number of rounds,
  and the result is \<open>None\<close> when a further round would be needed. The loop test comes
  before the fuel is looked at. The result is the records yielded, the exception raised,
  if any, and the world left.
\<close>

fun iter_loop ::
  "nat \<Rightarrow> (int \<Rightarrow> json \<Rightarrow> world \<Rightarrow> step) \<Rightarrow> int \<Rightarrow> int \<Rightarrow> json \<Rightarrow> world
     \<Rightarrow> (page_record list \<times> error option \<times> world) option" where
  "iter_loop 0 round limit fetched token w =
     (if fetched < limit then None else Some ([], None, w))"
| "iter_loop (Suc fuel) round limit fetched token w =
     (if fetched < limit
      then (case round fetched token w of
              Done ys e w1 \<Rightarrow> Some (ys, e, w1)
            | Continue ys fetched1 token1 w1 \<Rightarrow>
                (case iter_loop fuel round limit fetched1 token1 w1 of
                   None \<Rightarrow> None
                 | Some (zs, e, w2) \<Rightarrow> Some (ys @ zs, e, w2)))
      else Some ([], None, w))"

definition iter_pages ::
  "(string \<Rightarrow> string) \<Rightarrow> network \<Rightarrow> library \<Rightarrow> ustr option \<Rightarrow> int \<Rightarrow> int \<Rightarrow> bool
     \<Rightarrow> nat \<Rightarrow> world \<Rightarrow> (page_record list \<times> error option \<times> world) option" where
  "iter_pages sha1 net lib pre limit batch_size refresh fuel w =
     iter_loop fuel (iter_step sha1 net lib pre limit batch_size refresh) limit 0 JNull w"

text \<open>A library for the examples; the replies of the examples never reach it.\<close>

definition example_library :: library where
  "example_library =
     \<lparr>py_sorted = (\<lambda>_. Inl TypeError), untyped_update = (\<lambda>_ _ w. ([], Some TypeError, w))\<rparr>"

text \<open>
  The synthetic API of claim C1. A page of the API is an object with an integer
  \<^verbatim>\<open>pageid\<close>, a \<^verbatim>\<open>title\<close> and, when it has an \<^verbatim>\<open>index\<close>, an integer one; \<open>page_key\<close> is its
  sort key and \<open>the_record\<close> the record yielded for it.
\<close>

definition good_page :: "json \<Rightarrow> bool" where
  "good_page page =
     (case page of
        JObj kvs \<Rightarrow>
          (case map_of kvs (U ''pageid'') of
             Some (JNum _) \<Rightarrow>
               (case map_of kvs (U ''index'') of
                  None \<Rightarrow> True
                | Some (JNum _) \<Rightarrow> True
                | Some _ \<Rightarrow> False)
               \<and> map_of kvs (U ''title'') \<noteq> None
           | _ \<Rightarrow> False)
      | _ \<Rightarrow> False)"

definition page_key :: "json \<Rightarrow> int" where
  "page_key page = (case sort_key_of page of Inr (JNum i) \<Rightarrow> i | _ \<Rightarrow> 0)"

definition the_record :: "json \<Rightarrow> page_record" where
  "the_record page =
     (case page_record_of page of
        Inr r \<Rightarrow> r
      | Inl _ \<Rightarrow> \<lparr>rec_pageid = JNull, rec_title = JNull, rec_touched = JNull\<rparr>)"

text \<open>The pages of a reply body without an error entry, when it has \<open>n\<close> pages of the API.\<close>

definition reply_pages :: "nat \<Rightarrow> json \<Rightarrow> json list option" where
  "reply_pages n body =
     (case body of
        JObj kvs \<Rightarrow>
          (case (map_of kvs (U ''error''), map_of kvs (U ''query'')) of
             (None, Some (JObj q)) \<Rightarrow>
               (case map_of q (U ''pages'') of
                  Some (JObj pk) \<Rightarrow>
                    if length pk = n \<and> distinct (map fst pk) \<and> list_all good_page (map snd pk)
                    then Some (map snd pk) else None
                | _ \<Rightarrow> None)
           | _ \<Rightarrow> None)
      | _ \<Rightarrow> None)"

text \<open>
  A continuation token of the API: a non-empty dict of strings that leaves \<^verbatim>\<open>gaplimit\<close>
  alone.
\<close>

definition good_token :: "json \<Rightarrow> bool" where
  "good_token token \<longleftrightarrow>
     \<not> falsy token \<and>
     (case token_params token of
        Some items \<Rightarrow> map_of items (U ''gaplimit'') = None
      | None \<Rightarrow> False)"

text \<open>
  A reply with exactly \<open>n\<close> pages and a continuation token, and a reply with \<open>n\<close> pages
  and none.
\<close>

definition batch_reply :: "nat \<Rightarrow> json \<Rightarrow> bool" where
  "batch_reply n body \<longleftrightarrow>
     reply_pages n body \<noteq> None \<and>
     (case py_get body (U ''continue'') JNull of Inr token \<Rightarrow> good_token token | Inl _ \<Rightarrow> False)"

definition final_reply :: "nat \<Rightarrow> json \<Rightarrow> bool" where
  "final_reply n body \<longleftrightarrow>
     reply_pages n body \<noteq> None \<and>
     (case py_get body (U ''continue'') JNull of Inr token \<Rightarrow> falsy token | Inl _ \<Rightarrow> False)"

text \<open>
  The synthetic API answers a request for \<open>k\<close> pages, whatever was sent before, with a
  reply that \<^verbatim>\<open>raise_for_status\<close> lets through, with exactly \<open>k\<close> pages and a continuation
  token.
\<close>

definition synthetic_api :: "network \<Rightarrow> int \<Rightarrow> bool" where
  "synthetic_api net batch_size \<longleftrightarrow>
     (\<forall>log p k. 0 < k \<and> k \<le> batch_size \<and> map_of p (U ''gaplimit'') = Some (U (str_int k)) \<longrightarrow>
        (\<exists>status body. net log p = Response status (Some body) \<and>
                        raise_for_status status = None \<and> batch_reply (nat k) body))"

text \<open>Every cache entry is such a reply of \<open>n\<close> pages (so is an empty cache).\<close>

definition cache_of_batches :: "nat \<Rightarrow> world \<Rightarrow> bool" where
  "cache_of_batches n w \<longleftrightarrow> (\<forall>key body. cache w key = Some body \<longrightarrow> batch_reply n body)"

text \<open>The number of rounds for \<open>limit\<close> pages in batches of \<open>batch_size\<close>.\<close>

definition rounds :: "int \<Rightarrow> int \<Rightarrow> nat" where
  "rounds limit batch_size = nat ((limit + batch_size - 1) div batch_size)"

section \<open>Theorems\<close>

subsection \<open>Batch size\<close>

text \<open>
  C6. The batch size used by the pagination walker is clamped before use: a value above
  the protocol maximum 500 becomes 500, a value less than or equal to 0 becomes 1, and a
  value in the range 1 to 500 passes through unchanged.
\<close>

theorem clamp_batch_size_cases:
  "main_batch_size (Some b) = clamp_batch_size b \<and>
   clamp_batch_size b = (if 500 < b then 500 else if b \<le> 0 then 1 else b)"
  by (simp add: main_batch_size_def clamp_batch_size_def MAX_BATCH_SIZE_def)

subsection \<open>Document format\<close>

lemma join_snoc:
  "join sep (xs @ [y]) = concat (map (\<lambda>l. l @ sep) xs) @ y"
  by (induction sep xs rule: join.induct) simp_all

lemma metadata_lines_concat:
  "concat (map (\<lambda>l. l @ sep) (metadata_lines str_of md)) =
   concat (map (\<lambda>(k, x). U '' | '' @ k @ U '' = '' @ str_of x @ sep) [(k, x). (k, Some x) \<leftarrow> md])"
  by (induction md) (auto split: option.splits)

lemma rstrip_nl_decomp: "\<exists>n. s = rstrip_nl s @ replicate n NL"
proof -
  let ?t = "takeWhile (\<lambda>c. c = NL) (rev s)"
  have "?t = replicate (length ?t) NL"
    by (rule replicate_length_same [symmetric]) (auto dest: set_takeWhileD)
  then have "rev ?t = replicate (length ?t) NL"
    by (metis rev_replicate)
  moreover have "s = rev (dropWhile (\<lambda>c. c = NL) (rev s)) @ rev ?t"
    by (metis rev_append rev_rev_ident takeWhile_dropWhile_id)
  ultimately have "s = rstrip_nl s @ replicate (length ?t) NL"
    by (simp add: rstrip_nl_def)
  then show ?thesis ..
qed

lemma rstrip_nl_no_trailing: "\<nexists>b. rstrip_nl s = b @ [NL]"
proof
  assume "\<exists>b. rstrip_nl s = b @ [NL]"
  then obtain b where "rstrip_nl s = b @ [NL]" ..
  then have "dropWhile (\<lambda>c. c = NL) (rev s) = NL # rev b"
    by (simp add: rstrip_nl_def rev_swap)
  then show False
    by (metis (mono_tags, lifting) hd_dropWhile list.sel(1) list.distinct(1))
qed

lemma format_metadata_wikitext_block:
  "format_metadata_wikitext str_of md =
     U ''{{Page metadata'' @ [NL] @
     concat (map (\<lambda>(k, x). U '' | '' @ k @ U '' = '' @ str_of x @ [NL]) [(k, x). (k, Some x) \<leftarrow> md]) @
     U ''}}''"
proof -
  have shape: "[U ''{{Page metadata''] @ metadata_lines str_of md @ [U ''}}''] =
               (U ''{{Page metadata'' # metadata_lines str_of md) @ [U ''}}'']"
    by simp
  show ?thesis
    unfolding format_metadata_wikitext_def shape join_snoc
    by (simp only: list.map concat.simps metadata_lines_concat append_assoc)
qed

text \<open>
  C5. The saved document is exactly the metadata block (the opening delimiter, one
  \<open>| key = value\<close> line for each entry with a non-null value in insertion order, the
  closing delimiter), one blank line, the markup without its trailing newlines, and one
  newline.
\<close>

theorem render_document_format:
  "render_document str_of md wt =
     U ''{{Page metadata'' @ [NL] @
     concat (map (\<lambda>(k, x). U '' | '' @ k @ U '' = '' @ str_of x @ [NL]) [(k, x). (k, Some x) \<leftarrow> md]) @
     U ''}}'' @ [NL] @
     [NL] @
     rstrip_nl wt @
     [NL]
   \<and> (\<exists>n. wt = rstrip_nl wt @ replicate n NL)
   \<and> (\<nexists>b. rstrip_nl wt = b @ [NL])"
proof (intro conjI)
  show "render_document str_of md wt =
     U ''{{Page metadata'' @ [NL] @
     concat (map (\<lambda>(k, x). U '' | '' @ k @ U '' = '' @ str_of x @ [NL]) [(k, x). (k, Some x) \<leftarrow> md]) @
     U ''}}'' @ [NL] @ [NL] @ rstrip_nl wt @ [NL]"
    unfolding render_document_def format_metadata_wikitext_block
    by (simp only: append_assoc append_Cons append_Nil)
  show "\<exists>n. wt = rstrip_nl wt @ replicate n NL"
    by (rule rstrip_nl_decomp)
  show "\<nexists>b. rstrip_nl wt = b @ [NL]"
    by (rule rstrip_nl_no_trailing)
qed

text \<open>The document of the specification's example.\<close>

theorem render_document_foo_bar:
  "render_document (\<lambda>s. s)
     [(U ''title'', Some (U ''Foo Bar'')), (U ''author'', Some (U ''X'')),
      (U ''date'', Some (U ''2024-01-01'')), (U ''revid'', None)]
     (U ''== Intro =='' @ [NL, NL, NL]) =
   U ''{{Page metadata'' @ [NL] @
   U '' | title = Foo Bar'' @ [NL] @
   U '' | author = X'' @ [NL] @
   U '' | date = 2024-01-01'' @ [NL] @
   U ''}}'' @ [NL] @
   [NL] @
   U ''== Intro =='' @ [NL]"
  using render_document_format [of "\<lambda>s. s"
     "[(U ''title'', Some (U ''Foo Bar'')), (U ''author'', Some (U ''X'')),
      (U ''date'', Some (U ''2024-01-01'')), (U ''revid'', None)]" "U ''== Intro =='' @ [NL, NL, NL]"]
  by (simp add: rstrip_nl_def NL_def U_def)

subsection \<open>Cache keys\<close>








lemma hex_digit_not_quote: "n < 16 \<Longrightarrow> hex_digit n \<noteq> DQ"
proof -
  assume "n < 16"
  then have "hex_digit n \<in> set ''0123456789abcdef''"
    unfolding hex_digit_def by (intro nth_mem) simp
  then show ?thesis
    by (auto simp: DQ_def)
qed



















lemma U_inj [simp]: "U a = U b \<longleftrightarrow> a = b"
  by (simp add: U_def inj_map_eq_map inj_of_char)



subsection \<open>The cache layer\<close>

lemma cached_request_hit:
  "cache w (cache_key sha1 p) = Some body \<Longrightarrow> cached_request sha1 net p False w = (Inr body, w)"
  by (simp add: cached_request_def)

lemma cached_request_miss:
  assumes "refresh \<or> cache w (cache_key sha1 p) = None"
  shows "cached_request sha1 net p refresh w =
     (case net (net_log w) p of
        Raised msg \<Rightarrow> (Inl (RequestException msg), w\<lparr>net_log := net_log w @ [p]\<rparr>)
      | Response status body \<Rightarrow>
          (case raise_for_status status of
             Some e \<Rightarrow> (Inl e, w\<lparr>net_log := net_log w @ [p]\<rparr>)
           | None \<Rightarrow>
               (case body of
                  None \<Rightarrow> (Inl JSONDecodeError, w\<lparr>net_log := net_log w @ [p]\<rparr>)
                | Some data \<Rightarrow>
                    (case error_envelope data of
                       Some e \<Rightarrow> (Inl e, w\<lparr>net_log := net_log w @ [p]\<rparr>)
                     | None \<Rightarrow>
                         (Inr data,
                          w\<lparr>net_log := net_log w @ [p],
                            cache := (cache w)(cache_key sha1 p \<mapsto> data)\<rparr>)))))"
  using assms by (auto simp: cached_request_def Let_def raise_for_status_def split: reply.splits option.splits)

lemma cached_request_success_cached:
  "cached_request sha1 net p refresh w = (Inr body, w') \<Longrightarrow> cache w' (cache_key sha1 p) = Some body"
  by (auto simp: cached_request_def Let_def raise_for_status_def split: if_splits reply.splits option.splits)

lemma cached_request_net_log:
  "net_log (snd (cached_request sha1 net p refresh w)) = net_log w \<or>
   net_log (snd (cached_request sha1 net p refresh w)) = net_log w @ [p]"
  by (auto simp: cached_request_def Let_def raise_for_status_def split: reply.splits option.splits)



text \<open>
  C3. Without \<open>refresh\<close>, an existing cache entry is returned and the world is left as it
  was, so nothing is sent to the network. With \<open>refresh\<close> the result does not depend on
  the cache, one request is sent, and a successful reply is stored under the key and
  returned. Hence when a call without \<open>refresh\<close> returns a body, it has sent at most one
  request and a second call returns the same body and sends none.
\<close>

theorem cached_request_refresh_policy:
  "(cache w (cache_key sha1 p) = Some body \<longrightarrow> cached_request sha1 net p False w = (Inr body, w))
   \<and> fst (cached_request sha1 net p True (w\<lparr>cache := c\<rparr>)) = fst (cached_request sha1 net p True w)
   \<and> net_log (snd (cached_request sha1 net p True w)) = net_log w @ [p]
   \<and> (fst (cached_request sha1 net p True w) = Inr data \<longrightarrow>
        (\<exists>status. net (net_log w) p = Response status (Some data) \<and> raise_for_status status = None) \<and>
        cache (snd (cached_request sha1 net p True w)) = (cache w)(cache_key sha1 p \<mapsto> data))
   \<and> (fst (cached_request sha1 net p False w) = Inr b1 \<longrightarrow>
        cached_request sha1 net p False (snd (cached_request sha1 net p False w)) =
          (Inr b1, snd (cached_request sha1 net p False w)) \<and>
        length (net_log (snd (cached_request sha1 net p False w))) \<le> length (net_log w) + 1)"
proof (intro conjI impI)
  assume "cache w (cache_key sha1 p) = Some body"
  then show "cached_request sha1 net p False w = (Inr body, w)"
    by (rule cached_request_hit)
next
  show "fst (cached_request sha1 net p True (w\<lparr>cache := c\<rparr>)) = fst (cached_request sha1 net p True w)"
    by (simp add: cached_request_miss split: reply.splits option.splits)
next
  show "net_log (snd (cached_request sha1 net p True w)) = net_log w @ [p]"
    by (simp add: cached_request_miss split: reply.splits option.splits)
next
  assume "fst (cached_request sha1 net p True w) = Inr data"
  then show "\<exists>status. net (net_log w) p = Response status (Some data) \<and> raise_for_status status = None"
    by (auto simp: cached_request_miss raise_for_status_def split: reply.splits option.splits if_splits)
next
  assume "fst (cached_request sha1 net p True w) = Inr data"
  then show "cache (snd (cached_request sha1 net p True w)) = (cache w)(cache_key sha1 p \<mapsto> data)"
    by (auto simp: cached_request_miss raise_for_status_def split: reply.splits option.splits if_splits)
next
  assume a: "fst (cached_request sha1 net p False w) = Inr b1"
  obtain w1 where w1: "cached_request sha1 net p False w = (Inr b1, w1)"
    using a by (cases "cached_request sha1 net p False w") simp
  then have "cache w1 (cache_key sha1 p) = Some b1"
    by (rule cached_request_success_cached)
  then have "cached_request sha1 net p False w1 = (Inr b1, w1)"
    by (rule cached_request_hit)
  with w1 show "cached_request sha1 net p False (snd (cached_request sha1 net p False w)) =
          (Inr b1, snd (cached_request sha1 net p False w))"
    by simp
next
  show "length (net_log (snd (cached_request sha1 net p False w))) \<le> length (net_log w) + 1"
    using cached_request_net_log [of sha1 net p False w] by auto
qed

theorem cached_request_refresh_policy_witness:
  "cached_request (\<lambda>s. s) (\<lambda>_ _. Raised ''unreachable'') [(U ''action'', U ''query'')] False
     (empty_world\<lparr>cache := [cache_key (\<lambda>s. s) [(U ''action'', U ''query'')] \<mapsto> JObj []]\<rparr>)
   = (Inr (JObj []), empty_world\<lparr>cache := [cache_key (\<lambda>s. s) [(U ''action'', U ''query'')] \<mapsto> JObj []]\<rparr>)
   \<and> fst (cached_request (\<lambda>s. s) (\<lambda>_ _. Response 200 (Some (JObj [(U ''query'', JObj [])])))
          [(U ''action'', U ''query'')] True empty_world) = Inr (JObj [(U ''query'', JObj [])])
   \<and> cache (snd (cached_request (\<lambda>s. s) (\<lambda>_ _. Response 200 (Some (JObj [(U ''query'', JObj [])])))
          [(U ''action'', U ''query'')] True empty_world))
       = [cache_key (\<lambda>s. s) [(U ''action'', U ''query'')] \<mapsto> JObj [(U ''query'', JObj [])]]
   \<and> fst (cached_request (\<lambda>s. s) (\<lambda>_ _. Response 200 (Some (JObj [(U ''query'', JObj [])])))
          [(U ''action'', U ''query'')] False
          (snd (cached_request (\<lambda>s. s) (\<lambda>_ _. Response 200 (Some (JObj [(U ''query'', JObj [])])))
             [(U ''action'', U ''query'')] False empty_world))) = Inr (JObj [(U ''query'', JObj [])])"
proof -
  let ?p = "[(U ''action'', U ''query'')]"
  let ?ok = "\<lambda>(_::params list) (_::params). Response 200 (Some (JObj [(U ''query'', JObj [])]))"
  let ?w = "empty_world\<lparr>cache := [cache_key (\<lambda>s. s) ?p \<mapsto> JObj []]\<rparr>"
  have hit: "cache ?w (cache_key (\<lambda>s. s) ?p) = Some (JObj [])"
    by simp
  have fresh: "fst (cached_request (\<lambda>s. s) ?ok ?p True empty_world) = Inr (JObj [(U ''query'', JObj [])])"
    by (simp add: cached_request_def error_envelope_def raise_for_status_def)
  have first: "fst (cached_request (\<lambda>s. s) ?ok ?p False empty_world) = Inr (JObj [(U ''query'', JObj [])])"
    by (simp add: cached_request_def error_envelope_def empty_world_def raise_for_status_def)
  show ?thesis
    using cached_request_refresh_policy [of ?w "\<lambda>s. s" ?p "JObj []" "\<lambda>_ _. Raised ''unreachable''"]
      cached_request_refresh_policy [of empty_world "\<lambda>s. s" ?p _ ?ok _ "JObj [(U ''query'', JObj [])]"
        "JObj [(U ''query'', JObj [])]"]
      hit fresh first
    by (simp add: empty_world_def)
qed




subsection \<open>Fetch, save and grab\<close>



















subsection \<open>The pagination walker\<close>

text \<open>
  C7. With a limit less than or equal to 0 the walker yields nothing and leaves the world
  as it was, whatever the prefix, the batch size and the refresh flag: the loop body, which
  holds the only call of \<^verbatim>\<open>cached_request\<close>, is never entered. No round is needed, so this
  holds for every fuel.
\<close>

theorem iter_pages_nonpositive_limit:
  "limit \<le> 0 \<Longrightarrow> iter_pages sha1 net lib pre limit batch_size refresh fuel w = Some ([], None, w)"
  by (cases fuel) (simp_all add: iter_pages_def)

theorem iter_pages_nonpositive_limit_witness:
  "iter_pages (\<lambda>s. s) (\<lambda>_ _. Raised ''unreachable'') example_library (Some (U ''PPU'')) 0 10 False 0
     empty_world = Some ([], None, empty_world)
   \<and> iter_pages (\<lambda>s. s) (\<lambda>_ _. Raised ''unreachable'') example_library None (- 5) 500 True 3
     empty_world = Some ([], None, empty_world)"
  using iter_pages_nonpositive_limit [of 0 "\<lambda>s. s" "\<lambda>_ _. Raised ''unreachable''" example_library
      "Some (U ''PPU'')" 10 False 0 empty_world]
    iter_pages_nonpositive_limit [of "- 5" "\<lambda>s. s" "\<lambda>_ _. Raised ''unreachable''" example_library
      None 500 True 3 empty_world]
  by simp

end
